theory Spec2Isabelle
  imports Main "HOL-Library.Word"
begin

section \<open>The host editor, as the customization sees it\<close>

text \<open>
  \<^verbatim>\<open>FRustDetailCustomization.cpp\<close> is glue over the editor's detail-panel interfaces.
  Every interface function it calls lives outside the file, so each one is a field of
  the record \<open>host\<close>: a function on an abstract editor state \<open>'s\<close>. The type variables
  are the editor's opaque reference types: \<open>'h\<close> property handles, \<open>'o\<close> objects,
  \<open>'g\<close> the identifier a picker node carries, \<open>'c\<close> category builders and \<open>'u\<close>
  property utilities.
\<close>

type_synonym u32 = "32 word"

text \<open>
  A \<^verbatim>\<open>TWeakObjectPtr\<close> is null, or refers to an object that may have been destroyed
  since; comparing it with \<^verbatim>\<open>nullptr\<close> asks the editor whether the object is still there.
\<close>

type_synonym 'o TWeakObjectPtr = "'o option"

text \<open>
  The node a pick event delivers; the callback reads its \<^verbatim>\<open>Id\<close> only. The field is
  \<open>node_Id\<close> here, \<open>Id\<close> being the identity relation of HOL.
\<close>

record 'g FUuidViewNode =
  node_Id :: 'g

text \<open>
  What the lambda \<^verbatim>\<open>OnPicked\<close> captures by value. The third capture, the reference to the
  detail builder, is the editor itself.
\<close>

record ('o, 'h) OnPicked_captures =
  Component :: "'o TWeakObjectPtr"
  ComponentsHandle :: 'h

text \<open>
  The content of the custom row: an \<^verbatim>\<open>SRustDropdownList\<close> whose pick delegate is the
  lambda with its captures.
\<close>

datatype ('o, 'h) widget = SRustDropdownList "('o, 'h) OnPicked_captures"

text \<open>
  A handle the editor may fail to give (a null \<^verbatim>\<open>TSharedPtr\<close>) is an \<open>option\<close>, and so is
  the child count, which the editor reports only on success. \<^verbatim>\<open>GetProperty\<close> returns a
  \<^verbatim>\<open>TSharedRef\<close> and \<^verbatim>\<open>EditCategory\<close> a reference, which cannot be null.
  \<open>host_Render\<close> and \<open>host_Initialize\<close> stand for \<^verbatim>\<open>FDynamicRustComponent::Render\<close> and
  \<^verbatim>\<open>FDynamicRustComponent::Initialize\<close>, \<open>host_ToString\<close> for \<^verbatim>\<open>Id.ToString()\<close>.
\<close>

record ('s, 'h, 'o, 'g, 'c, 'u) host =
  host_GetObjectsBeingCustomized :: "'s \<Rightarrow> 'o TWeakObjectPtr list"
  host_IsValid :: "'s \<Rightarrow> 'o \<Rightarrow> bool"
  host_IsA_UEntityComponent :: "'o \<Rightarrow> bool"
  host_GetProperty :: "'s \<Rightarrow> string \<Rightarrow> 'h"
  host_EditCategory :: "string \<Rightarrow> 's \<Rightarrow> 'c \<times> 's"
  host_GetPropertyUtilities :: "'s \<Rightarrow> 'u"
  host_Render :: "'h \<Rightarrow> 'c \<Rightarrow> 'u \<Rightarrow> 's \<Rightarrow> 's"
  host_AddCustomRow :: "'c \<Rightarrow> string \<Rightarrow> ('o, 'h) widget \<Rightarrow> 's \<Rightarrow> 's"
  host_AsMap :: "'s \<Rightarrow> 'h \<Rightarrow> 'h option"
  host_AddItem :: "'h \<Rightarrow> 's \<Rightarrow> 's"
  host_GetNumChildren :: "'s \<Rightarrow> 'h \<Rightarrow> u32 option"
  host_GetChildHandle :: "'s \<Rightarrow> 'h \<Rightarrow> u32 \<Rightarrow> 'h option"
  host_GetKeyHandle :: "'s \<Rightarrow> 'h \<Rightarrow> 'h option"
  host_SetValue :: "'h \<Rightarrow> string \<Rightarrow> 's \<Rightarrow> 's"
  host_Initialize :: "'h \<Rightarrow> 'g \<Rightarrow> 's \<Rightarrow> 's"
  host_ForceRefreshDetails :: "'s \<Rightarrow> 's"
  host_ToString :: "'g \<Rightarrow> string"

text \<open>
  Every call that leaves the file is recorded, in order, with its arguments. The file
  calls nothing that logs, reports an error or opens a dialog, so the type has no such
  constructor.
\<close>

datatype ('h, 'o, 'g, 'c, 'u) call =
    Call_GetObjectsBeingCustomized
  | Call_GetProperty string
  | Call_EditCategory string
  | Call_GetPropertyUtilities
  | Call_Render 'h 'c 'u
  | Call_AddCustomRow 'c string "('o, 'h) widget"
  | Call_AsMap 'h
  | Call_AddItem 'h
  | Call_GetNumChildren 'h
  | Call_GetChildHandle 'h u32
  | Call_GetKeyHandle 'h
  | Call_SetValue 'h string
  | Call_Initialize 'h 'g
  | Call_ForceRefreshDetails

record ('s, 'h, 'o, 'g, 'c, 'u) world =
  host_state :: 's
  calls :: "('h, 'o, 'g, 'c, 'u) call list"

text \<open>
  The two ways the C++ can stop abnormally: \<^verbatim>\<open>operator->\<close> on a null shared pointer and
  \<^verbatim>\<open>TArray::operator[]\<close> outside the array. An abnormal stop keeps the world it
  happened in.
\<close>

datatype error = NullPointerDereference | ArrayIndexOutOfBounds

definition emit ::
  "('h, 'o, 'g, 'c, 'u) call \<Rightarrow> ('s, 'h, 'o, 'g, 'c, 'u) world \<Rightarrow> ('s, 'h, 'o, 'g, 'c, 'u) world" where
  "emit c w = w\<lparr>calls := calls w @ [c]\<rparr>"

definition update_host ::
  "('s \<Rightarrow> 's) \<Rightarrow> ('s, 'h, 'o, 'g, 'c, 'u) world \<Rightarrow> ('s, 'h, 'o, 'g, 'c, 'u) world" where
  "update_host f w = w\<lparr>host_state := f (host_state w)\<rparr>"

subsection \<open>The calls on the detail builder\<close>

definition GetObjectsBeingCustomized ::
  "('s, 'h, 'o, 'g, 'c, 'u) host \<Rightarrow> ('s, 'h, 'o, 'g, 'c, 'u) world
     \<Rightarrow> 'o TWeakObjectPtr list \<times> ('s, 'h, 'o, 'g, 'c, 'u) world" where
  "GetObjectsBeingCustomized H w =
     (host_GetObjectsBeingCustomized H (host_state w), emit Call_GetObjectsBeingCustomized w)"

definition GetProperty ::
  "('s, 'h, 'o, 'g, 'c, 'u) host \<Rightarrow> string \<Rightarrow> ('s, 'h, 'o, 'g, 'c, 'u) world
     \<Rightarrow> 'h \<times> ('s, 'h, 'o, 'g, 'c, 'u) world" where
  "GetProperty H name w = (host_GetProperty H (host_state w) name, emit (Call_GetProperty name) w)"

definition EditCategory ::
  "('s, 'h, 'o, 'g, 'c, 'u) host \<Rightarrow> string \<Rightarrow> ('s, 'h, 'o, 'g, 'c, 'u) world
     \<Rightarrow> 'c \<times> ('s, 'h, 'o, 'g, 'c, 'u) world" where
  "EditCategory H name w =
     (fst (host_EditCategory H name (host_state w)),
      update_host (\<lambda>s. snd (host_EditCategory H name s)) (emit (Call_EditCategory name) w))"

definition GetPropertyUtilities ::
  "('s, 'h, 'o, 'g, 'c, 'u) host \<Rightarrow> ('s, 'h, 'o, 'g, 'c, 'u) world
     \<Rightarrow> 'u \<times> ('s, 'h, 'o, 'g, 'c, 'u) world" where
  "GetPropertyUtilities H w =
     (host_GetPropertyUtilities H (host_state w), emit Call_GetPropertyUtilities w)"

definition Render ::
  "('s, 'h, 'o, 'g, 'c, 'u) host \<Rightarrow> 'h \<Rightarrow> 'c \<Rightarrow> 'u \<Rightarrow> ('s, 'h, 'o, 'g, 'c, 'u) world
     \<Rightarrow> ('s, 'h, 'o, 'g, 'c, 'u) world" where
  "Render H h c u w = update_host (host_Render H h c u) (emit (Call_Render h c u) w)"

text \<open>
  \<^verbatim>\<open>AddCustomRow(label).WholeRowContent()[content]\<close>: the row and the widget that fills it
  are one call here.
\<close>

definition AddCustomRow ::
  "('s, 'h, 'o, 'g, 'c, 'u) host \<Rightarrow> 'c \<Rightarrow> string \<Rightarrow> ('o, 'h) widget
     \<Rightarrow> ('s, 'h, 'o, 'g, 'c, 'u) world \<Rightarrow> ('s, 'h, 'o, 'g, 'c, 'u) world" where
  "AddCustomRow H c label content w =
     update_host (host_AddCustomRow H c label content) (emit (Call_AddCustomRow c label content) w)"

definition ForceRefreshDetails ::
  "('s, 'h, 'o, 'g, 'c, 'u) host \<Rightarrow> ('s, 'h, 'o, 'g, 'c, 'u) world
     \<Rightarrow> ('s, 'h, 'o, 'g, 'c, 'u) world" where
  "ForceRefreshDetails H w = update_host (host_ForceRefreshDetails H) (emit Call_ForceRefreshDetails w)"

subsection \<open>The calls on property handles\<close>

definition AsMap ::
  "('s, 'h, 'o, 'g, 'c, 'u) host \<Rightarrow> 'h \<Rightarrow> ('s, 'h, 'o, 'g, 'c, 'u) world
     \<Rightarrow> 'h option \<times> ('s, 'h, 'o, 'g, 'c, 'u) world" where
  "AsMap H h w = (host_AsMap H (host_state w) h, emit (Call_AsMap h) w)"

definition AddItem ::
  "('s, 'h, 'o, 'g, 'c, 'u) host \<Rightarrow> 'h \<Rightarrow> ('s, 'h, 'o, 'g, 'c, 'u) world
     \<Rightarrow> ('s, 'h, 'o, 'g, 'c, 'u) world" where
  "AddItem H m w = update_host (host_AddItem H m) (emit (Call_AddItem m) w)"

text \<open>
  \<^verbatim>\<open>GetNumChildren(NumChildren)\<close> writes its result through a reference and the caller
  ignores the returned status: when the editor reports nothing, the variable keeps the
  value it had.
\<close>

definition GetNumChildren ::
  "('s, 'h, 'o, 'g, 'c, 'u) host \<Rightarrow> 'h \<Rightarrow> u32 \<Rightarrow> ('s, 'h, 'o, 'g, 'c, 'u) world
     \<Rightarrow> u32 \<times> ('s, 'h, 'o, 'g, 'c, 'u) world" where
  "GetNumChildren H h NumChildren w =
     ((case host_GetNumChildren H (host_state w) h of None \<Rightarrow> NumChildren | Some n \<Rightarrow> n),
      emit (Call_GetNumChildren h) w)"

definition GetChildHandle ::
  "('s, 'h, 'o, 'g, 'c, 'u) host \<Rightarrow> 'h \<Rightarrow> u32 \<Rightarrow> ('s, 'h, 'o, 'g, 'c, 'u) world
     \<Rightarrow> 'h option \<times> ('s, 'h, 'o, 'g, 'c, 'u) world" where
  "GetChildHandle H h i w = (host_GetChildHandle H (host_state w) h i, emit (Call_GetChildHandle h i) w)"

definition GetKeyHandle ::
  "('s, 'h, 'o, 'g, 'c, 'u) host \<Rightarrow> 'h \<Rightarrow> ('s, 'h, 'o, 'g, 'c, 'u) world
     \<Rightarrow> 'h option \<times> ('s, 'h, 'o, 'g, 'c, 'u) world" where
  "GetKeyHandle H h w = (host_GetKeyHandle H (host_state w) h, emit (Call_GetKeyHandle h) w)"

definition SetValue ::
  "('s, 'h, 'o, 'g, 'c, 'u) host \<Rightarrow> 'h \<Rightarrow> string \<Rightarrow> ('s, 'h, 'o, 'g, 'c, 'u) world
     \<Rightarrow> ('s, 'h, 'o, 'g, 'c, 'u) world" where
  "SetValue H k v w = update_host (host_SetValue H k v) (emit (Call_SetValue k v) w)"

definition Initialize ::
  "('s, 'h, 'o, 'g, 'c, 'u) host \<Rightarrow> 'h \<Rightarrow> 'g \<Rightarrow> ('s, 'h, 'o, 'g, 'c, 'u) world
     \<Rightarrow> ('s, 'h, 'o, 'g, 'c, 'u) world" where
  "Initialize H c g w = update_host (host_Initialize H c g) (emit (Call_Initialize c g) w)"

subsection \<open>Pointers and arrays\<close>

text \<open>\<^verbatim>\<open>Ptr == nullptr\<close> on a weak pointer.\<close>

definition is_nullptr :: "('s, 'h, 'o, 'g, 'c, 'u) host \<Rightarrow> 's \<Rightarrow> 'o TWeakObjectPtr \<Rightarrow> bool" where
  "is_nullptr H s p = (case p of None \<Rightarrow> True | Some ob \<Rightarrow> \<not> host_IsValid H s ob)"

text \<open>\<^verbatim>\<open>Cast<UEntityComponent>(Ptr)\<close>: null unless the object is there and of that class.\<close>

definition Cast_UEntityComponent ::
  "('s, 'h, 'o, 'g, 'c, 'u) host \<Rightarrow> 's \<Rightarrow> 'o TWeakObjectPtr \<Rightarrow> 'o TWeakObjectPtr" where
  "Cast_UEntityComponent H s p =
     (case p of
        None \<Rightarrow> None
      | Some ob \<Rightarrow> if host_IsValid H s ob \<and> host_IsA_UEntityComponent H ob then Some ob else None)"

text \<open>\<^verbatim>\<open>TArray::operator[]\<close>, with its range check.\<close>

definition TArray_at :: "'a list \<Rightarrow> int \<Rightarrow> error + 'a" where
  "TArray_at xs i = (if 0 \<le> i \<and> i < int (length xs) then Inr (xs ! nat i) else Inl ArrayIndexOutOfBounds)"

section \<open>The customization\<close>

text \<open>
  The lambda of lines 34 to 50. A null \<^verbatim>\<open>ChildProp\<close> or \<^verbatim>\<open>KeyProp\<close> (and a null map
  view) is dereferenced by the next \<^verbatim>\<open>->\<close>.
\<close>

definition OnPicked ::
  "('s, 'h, 'o, 'g, 'c, 'u) host \<Rightarrow> ('o, 'h) OnPicked_captures \<Rightarrow> 'g FUuidViewNode option
     \<Rightarrow> ('s, 'h, 'o, 'g, 'c, 'u) world
     \<Rightarrow> (error \<times> ('s, 'h, 'o, 'g, 'c, 'u) world) + ('s, 'h, 'o, 'g, 'c, 'u) world" where
  "OnPicked H cap Node w =
     (case Node of
        None \<Rightarrow> Inr w
      | Some N \<Rightarrow>
          if is_nullptr H (host_state w) (Component cap) then Inr w
          else
            (case AsMap H (ComponentsHandle cap) w of
               (None, w1) \<Rightarrow> Inl (NullPointerDereference, w1)
             | (Some Map, w1) \<Rightarrow>
                 let w2 = AddItem H Map w1;
                     (NumChildren, w3) = GetNumChildren H (ComponentsHandle cap) 0 w2
                 in (case GetChildHandle H (ComponentsHandle cap) (NumChildren - 1) w3 of
                       (None, w4) \<Rightarrow> Inl (NullPointerDereference, w4)
                     | (Some ChildProp, w4) \<Rightarrow>
                         (case GetKeyHandle H ChildProp w4 of
                            (None, w5) \<Rightarrow> Inl (NullPointerDereference, w5)
                          | (Some KeyProp, w5) \<Rightarrow>
                              let w6 = SetValue H KeyProp (host_ToString H (node_Id N)) w5;
                                  w7 = Initialize H ChildProp (node_Id N) w6
                              in Inr (ForceRefreshDetails H w7)))))"

text \<open>\<^verbatim>\<open>FRustDetailCustomization::CustomizeDetails\<close>, lines 17 to 58.\<close>

definition CustomizeDetails ::
  "('s, 'h, 'o, 'g, 'c, 'u) host \<Rightarrow> ('s, 'h, 'o, 'g, 'c, 'u) world
     \<Rightarrow> (error \<times> ('s, 'h, 'o, 'g, 'c, 'u) world) + ('s, 'h, 'o, 'g, 'c, 'u) world" where
  "CustomizeDetails H w =
     (let (Objects, w1) = GetObjectsBeingCustomized H w
      in if Objects = [] then Inr w1
         else
           (case TArray_at Objects 0 of
              Inl e \<Rightarrow> Inl (e, w1)
            | Inr Object0 \<Rightarrow>
                let Component = Cast_UEntityComponent H (host_state w1) Object0;
                    (ComponentsHandle, w2) = GetProperty H ''Components'' w1;
                    (RustCategory, w3) = EditCategory H ''Rust'' w2;
                    OnPicked_lambda = \<lparr>Component = Component, ComponentsHandle = ComponentsHandle\<rparr>;
                    (Utilities, w4) = GetPropertyUtilities H w3;
                    w5 = Render H ComponentsHandle RustCategory Utilities w4
                in Inr (AddCustomRow H RustCategory ''Picker'' (SRustDropdownList OnPicked_lambda) w5)))"

text \<open>A pick event on the widget runs the delegate it was built with.\<close>

fun pick ::
  "('s, 'h, 'o, 'g, 'c, 'u) host \<Rightarrow> ('o, 'h) widget \<Rightarrow> 'g FUuidViewNode option
     \<Rightarrow> ('s, 'h, 'o, 'g, 'c, 'u) world
     \<Rightarrow> (error \<times> ('s, 'h, 'o, 'g, 'c, 'u) world) + ('s, 'h, 'o, 'g, 'c, 'u) world" where
  "pick H (SRustDropdownList cap) Node w = OnPicked H cap Node w"

section \<open>What a run leaves behind\<close>

text \<open>The world a run ends in, whether it returned or stopped abnormally.\<close>

fun final_world ::
  "(error \<times> ('s, 'h, 'o, 'g, 'c, 'u) world) + ('s, 'h, 'o, 'g, 'c, 'u) world
     \<Rightarrow> ('s, 'h, 'o, 'g, 'c, 'u) world" where
  "final_world (Inl (e, w)) = w"
| "final_world (Inr w) = w"

text \<open>The calls a run added to the record of a world \<open>w\<close>.\<close>

definition calls_since ::
  "('s, 'h, 'o, 'g, 'c, 'u) world \<Rightarrow> ('s, 'h, 'o, 'g, 'c, 'u) world \<Rightarrow> ('h, 'o, 'g, 'c, 'u) call list" where
  "calls_since w w' = drop (length (calls w)) (calls w')"

fun is_write :: "('h, 'o, 'g, 'c, 'u) call \<Rightarrow> bool" where
  "is_write (Call_SetValue k v) = True"
| "is_write (Call_Initialize c g) = True"
| "is_write _ = False"

text \<open>
  The value \<^verbatim>\<open>NumChildren\<close> holds after line 42: what the editor reports once the item
  was added, or the initial 0 when it reports nothing.
\<close>

definition NumChildren_read :: "('s, 'h, 'o, 'g, 'c, 'u) host \<Rightarrow> 'h \<Rightarrow> 'h \<Rightarrow> 's \<Rightarrow> u32" where
  "NumChildren_read H h m s =
     (case host_GetNumChildren H (host_AddItem H m s) h of None \<Rightarrow> 0 | Some n \<Rightarrow> n)"

section \<open>A list-backed editor\<close>

text \<open>
  One editor to run the customization on: the map property is a list of key and value
  pairs, a child handle is an index into it, and every other call leaves a mark that can
  be counted. A value is absent until it is initialized with an identifier.
\<close>

datatype list_handle = Property string | MapView string | Child nat | Key nat

datatype list_object = EntityComponent nat | OtherObject nat

record list_editor =
  customized :: "list_object TWeakObjectPtr list"
  alive :: "list_object list"
  entries :: "(string \<times> nat list option) list"
  categories :: "string list"
  rendered :: nat
  rows :: "(string \<times> string \<times> (list_object, list_handle) widget) list"
  refreshes :: nat

fun hex_digit :: "nat \<Rightarrow> char" where
  "hex_digit d = (if d < 16 then ''0123456789ABCDEF'' ! d else CHR ''?'')"

fun list_IsA_UEntityComponent :: "list_object \<Rightarrow> bool" where
  "list_IsA_UEntityComponent (EntityComponent a) = True"
| "list_IsA_UEntityComponent (OtherObject a) = False"

fun list_AsMap :: "list_editor \<Rightarrow> list_handle \<Rightarrow> list_handle option" where
  "list_AsMap s (Property name) = (if name = ''Components'' then Some (MapView name) else None)"
| "list_AsMap s h = None"

fun list_AddItem :: "list_handle \<Rightarrow> list_editor \<Rightarrow> list_editor" where
  "list_AddItem (MapView name) s = s\<lparr>entries := entries s @ [([], None)]\<rparr>"
| "list_AddItem h s = s"

fun list_GetNumChildren :: "list_editor \<Rightarrow> list_handle \<Rightarrow> u32 option" where
  "list_GetNumChildren s (Property name) =
     (if length (entries s) < 2 ^ 32 then Some (of_nat (length (entries s))) else None)"
| "list_GetNumChildren s h = Some 0"

fun list_GetChildHandle :: "list_editor \<Rightarrow> list_handle \<Rightarrow> u32 \<Rightarrow> list_handle option" where
  "list_GetChildHandle s (Property name) i =
     (if unat i < length (entries s) then Some (Child (unat i)) else None)"
| "list_GetChildHandle s h i = None"

fun list_GetKeyHandle :: "list_editor \<Rightarrow> list_handle \<Rightarrow> list_handle option" where
  "list_GetKeyHandle s (Child i) = Some (Key i)"
| "list_GetKeyHandle s h = None"

fun list_SetValue :: "list_handle \<Rightarrow> string \<Rightarrow> list_editor \<Rightarrow> list_editor" where
  "list_SetValue (Key i) v s =
     (if i < length (entries s) then s\<lparr>entries := (entries s)[i := (v, snd (entries s ! i))]\<rparr> else s)"
| "list_SetValue h v s = s"

fun list_Initialize :: "list_handle \<Rightarrow> nat list \<Rightarrow> list_editor \<Rightarrow> list_editor" where
  "list_Initialize (Child i) g s =
     (if i < length (entries s) then s\<lparr>entries := (entries s)[i := (fst (entries s ! i), Some g)]\<rparr> else s)"
| "list_Initialize h g s = s"

definition list_host ::
  "(list_editor, list_handle, list_object, nat list, string, unit) host" where
  "list_host =
     \<lparr>host_GetObjectsBeingCustomized = customized,
      host_IsValid = (\<lambda>s ob. ob \<in> set (alive s)),
      host_IsA_UEntityComponent = list_IsA_UEntityComponent,
      host_GetProperty = (\<lambda>s name. Property name),
      host_EditCategory = (\<lambda>name s. (name, s\<lparr>categories := List.insert name (categories s)\<rparr>)),
      host_GetPropertyUtilities = (\<lambda>s. ()),
      host_Render = (\<lambda>h c u s. s\<lparr>rendered := Suc (rendered s)\<rparr>),
      host_AddCustomRow = (\<lambda>c label content s. s\<lparr>rows := rows s @ [(c, label, content)]\<rparr>),
      host_AsMap = list_AsMap,
      host_AddItem = list_AddItem,
      host_GetNumChildren = list_GetNumChildren,
      host_GetChildHandle = list_GetChildHandle,
      host_GetKeyHandle = list_GetKeyHandle,
      host_SetValue = list_SetValue,
      host_Initialize = list_Initialize,
      host_ForceRefreshDetails = (\<lambda>s. s\<lparr>refreshes := Suc (refreshes s)\<rparr>),
      host_ToString = map hex_digit\<rparr>"

text \<open>The same editor with a map that refuses new items.\<close>

definition frozen_host ::
  "(list_editor, list_handle, list_object, nat list, string, unit) host" where
  "frozen_host = list_host\<lparr>host_AddItem := (\<lambda>m s. s)\<rparr>"

text \<open>The same editor reporting a child count of 1 whatever the map holds.\<close>

definition miscount_host ::
  "(list_editor, list_handle, list_object, nat list, string, unit) host" where
  "miscount_host = list_host\<lparr>host_GetNumChildren := (\<lambda>s h. Some 1)\<rparr>"

text \<open>The same editor reporting no child count.\<close>

definition silent_host ::
  "(list_editor, list_handle, list_object, nat list, string, unit) host" where
  "silent_host = list_host\<lparr>host_GetNumChildren := (\<lambda>s h. None)\<rparr>"

text \<open>
  The same editor with a map that keeps its keys unique: no second item with the empty
  key is added, and a key that an entry already has is not written again.
\<close>

fun unique_AddItem :: "list_handle \<Rightarrow> list_editor \<Rightarrow> list_editor" where
  "unique_AddItem m s = (if [] \<in> fst ` set (entries s) then s else list_AddItem m s)"

fun unique_SetValue :: "list_handle \<Rightarrow> string \<Rightarrow> list_editor \<Rightarrow> list_editor" where
  "unique_SetValue k v s = (if v \<in> fst ` set (entries s) then s else list_SetValue k v s)"

definition unique_host ::
  "(list_editor, list_handle, list_object, nat list, string, unit) host" where
  "unique_host = list_host\<lparr>host_AddItem := unique_AddItem, host_SetValue := unique_SetValue\<rparr>"

text \<open>
  An editor showing one live entity component whose map holds one entry, before anything
  was called.
\<close>

definition editor0 :: list_editor where
  "editor0 =
     \<lparr>customized = [Some (EntityComponent 7)], alive = [EntityComponent 7],
      entries = [(''AB'', Some [10, 11])], categories = [], rendered = 0, rows = [],
      refreshes = 0\<rparr>"

definition world0 ::
  "(list_editor, list_handle, list_object, nat list, string, unit) world" where
  "world0 = \<lparr>host_state = editor0, calls = []\<rparr>"

definition captures0 :: "(list_object, list_handle) OnPicked_captures" where
  "captures0 = \<lparr>Component = Some (EntityComponent 7), ComponentsHandle = Property ''Components''\<rparr>"

definition node0 :: "nat list FUuidViewNode" where
  "node0 = \<lparr>node_Id = [1, 2, 15]\<rparr>"

text \<open>The same editor showing an object that is not an entity component.\<close>

definition editor_other :: list_editor where
  "editor_other = editor0\<lparr>customized := [Some (OtherObject 3)], alive := [OtherObject 3]\<rparr>"

text \<open>The same editor with an empty map.\<close>

definition editor_empty :: list_editor where
  "editor_empty = editor0\<lparr>entries := []\<rparr>"

text \<open>The same editor after \<open>node0\<close> was picked into an empty map.\<close>

definition editor_picked :: list_editor where
  "editor_picked = editor0\<lparr>entries := [(''12F'', Some [1, 2, 15])]\<rparr>"

section \<open>Running the code\<close>

text \<open>
  The calls of the file, unfolded to the editor's functions and the record of calls.
\<close>

lemmas call_defs = emit_def update_host_def GetObjectsBeingCustomized_def GetProperty_def
  EditCategory_def GetPropertyUtilities_def Render_def AddCustomRow_def ForceRefreshDetails_def
  AsMap_def AddItem_def GetNumChildren_def GetChildHandle_def GetKeyHandle_def SetValue_def
  Initialize_def

text \<open>
  A pick with a node and a live component, on an editor that hands back a map view, a
  child handle and a key handle: the callback runs to its end.
\<close>

lemma OnPicked_returns:
  assumes node: "Node = Some N"
    and comp: "\<not> is_nullptr H (host_state w) (Component cap)"
    and map: "host_AsMap H (host_state w) (ComponentsHandle cap) = Some m"
    and child: "host_GetChildHandle H (host_AddItem H m (host_state w)) (ComponentsHandle cap)
                  (NumChildren_read H (ComponentsHandle cap) m (host_state w) - 1) = Some c"
    and key: "host_GetKeyHandle H (host_AddItem H m (host_state w)) c = Some k"
  shows "OnPicked H cap Node w =
     Inr \<lparr>host_state =
            host_ForceRefreshDetails H
              (host_Initialize H c (node_Id N)
                (host_SetValue H k (host_ToString H (node_Id N))
                  (host_AddItem H m (host_state w)))),
          calls = calls w @
            [Call_AsMap (ComponentsHandle cap), Call_AddItem m,
             Call_GetNumChildren (ComponentsHandle cap),
             Call_GetChildHandle (ComponentsHandle cap)
               (NumChildren_read H (ComponentsHandle cap) m (host_state w) - 1),
             Call_GetKeyHandle c,
             Call_SetValue k (host_ToString H (node_Id N)),
             Call_Initialize c (node_Id N),
             Call_ForceRefreshDetails]\<rparr>"
  using assms
  by (simp add: OnPicked_def call_defs NumChildren_read_def Let_def)

lemma OnPicked_completes:
  fixes H :: "('s, 'h, 'o, 'g, 'c, 'u) host" and w :: "('s, 'h, 'o, 'g, 'c, 'u) world"
  assumes "Node = Some N"
    and "\<not> is_nullptr H (host_state w) (Component cap)"
    and "host_AsMap H (host_state w) (ComponentsHandle cap) = Some m"
    and "host_GetChildHandle H (host_AddItem H m (host_state w)) (ComponentsHandle cap)
           (NumChildren_read H (ComponentsHandle cap) m (host_state w) - 1) = Some c"
    and "host_GetKeyHandle H (host_AddItem H m (host_state w)) c = Some k"
  shows "\<exists>w'. OnPicked H cap Node w = Inr w'"
    and "filter is_write (calls_since w (final_world (OnPicked H cap Node w))) =
           [Call_SetValue k (host_ToString H (node_Id N)), Call_Initialize c (node_Id N)]"
    and "host_state (final_world (OnPicked H cap Node w)) =
           host_ForceRefreshDetails H
             (host_Initialize H c (node_Id N)
               (host_SetValue H k (host_ToString H (node_Id N))
                 (host_AddItem H m (host_state w))))"
  using OnPicked_returns [OF assms] by (simp_all add: calls_since_def)

text \<open>
  Past its guard, and once the map view is there, the callback asks for the child at
  \<^verbatim>\<open>NumChildren - 1\<close> whatever the editor answers afterwards.
\<close>

lemma OnPicked_fetches_child:
  assumes "Node = Some N"
    and "\<not> is_nullptr H (host_state w) (Component cap)"
    and "host_AsMap H (host_state w) (ComponentsHandle cap) = Some m"
  shows "Call_GetChildHandle (ComponentsHandle cap)
           (NumChildren_read H (ComponentsHandle cap) m (host_state w) - 1)
         \<in> set (calls_since w (final_world (OnPicked H cap Node w)))"
  using assms
  by (simp add: OnPicked_def call_defs NumChildren_read_def calls_since_def Let_def
      split: option.splits)

text \<open>
  With no child at the index the callback stops there, the item already added.
\<close>

lemma OnPicked_stops:
  assumes "Node = Some N"
    and "\<not> is_nullptr H (host_state w) (Component cap)"
    and "host_AsMap H (host_state w) (ComponentsHandle cap) = Some m"
    and "host_GetChildHandle H (host_AddItem H m (host_state w)) (ComponentsHandle cap)
           (NumChildren_read H (ComponentsHandle cap) m (host_state w) - 1) = None"
  shows "OnPicked H cap Node w =
     Inl (NullPointerDereference,
          \<lparr>host_state = host_AddItem H m (host_state w),
           calls = calls w @
             [Call_AsMap (ComponentsHandle cap), Call_AddItem m,
              Call_GetNumChildren (ComponentsHandle cap),
              Call_GetChildHandle (ComponentsHandle cap)
                (NumChildren_read H (ComponentsHandle cap) m (host_state w) - 1)]\<rparr>)"
  using assms
  by (simp add: OnPicked_def call_defs NumChildren_read_def Let_def)

text \<open>
  \<^verbatim>\<open>CustomizeDetails\<close> past its guard, and at it.
\<close>

lemma CustomizeDetails_returns:
  fixes H :: "('s, 'h, 'o, 'g, 'c, 'u) host" and w :: "('s, 'h, 'o, 'g, 'c, 'u) world"
  defines "s \<equiv> host_state w"
  defines "h \<equiv> host_GetProperty H s ''Components''"
  defines "c \<equiv> fst (host_EditCategory H ''Rust'' s)"
  defines "s3 \<equiv> snd (host_EditCategory H ''Rust'' s)"
  defines "u \<equiv> host_GetPropertyUtilities H s3"
  defines "cap \<equiv> \<lparr>Component = Cast_UEntityComponent H s (host_GetObjectsBeingCustomized H s ! 0),
                     ComponentsHandle = h\<rparr>"
  assumes objs: "host_GetObjectsBeingCustomized H s \<noteq> []"
  shows "CustomizeDetails H w =
     Inr \<lparr>host_state = host_AddCustomRow H c ''Picker'' (SRustDropdownList cap) (host_Render H h c u s3),
          calls = calls w @
            [Call_GetObjectsBeingCustomized, Call_GetProperty ''Components'',
             Call_EditCategory ''Rust'', Call_GetPropertyUtilities, Call_Render h c u,
             Call_AddCustomRow c ''Picker'' (SRustDropdownList cap)]\<rparr>"
  using objs unfolding s_def h_def c_def s3_def u_def cap_def
  by (simp add: CustomizeDetails_def TArray_at_def call_defs Let_def split: prod.splits)

lemma CustomizeDetails_empty:
  assumes "host_GetObjectsBeingCustomized H (host_state w) = []"
  shows "CustomizeDetails H w = Inr (w\<lparr>calls := calls w @ [Call_GetObjectsBeingCustomized]\<rparr>)"
  using assms by (simp add: CustomizeDetails_def call_defs)

section \<open>The index of the last child\<close>

lemma last_index_in_range:
  fixes n :: u32
  assumes "n \<noteq> 0"
  shows "unat (n - 1) < unat n" and "Suc (unat (n - 1)) = unat n"
proof -
  have "0 < unat n" using assms by (simp add: unat_gt_0)
  then show "unat (n - 1) < unat n" and "Suc (unat (n - 1)) = unat n"
    using unat_minus_one [OF assms] by simp_all
qed

lemma max_u32: "(- 1 :: u32) = 4294967295"
  by simp

lemma max_u32_is_greatest: "unat (j :: u32) \<le> unat (4294967295 :: u32)"
proof -
  have "unat j < 2 ^ 32" using unsigned_less [of j] by simp
  then show ?thesis by simp
qed

text \<open>
  The index the callback computes when the count read is the number of children: the
  last one; and the place of the appended entry when the item was appended last.
\<close>

lemma counted_child_index:
  assumes count: "host_GetNumChildren H (host_AddItem H m s) h = Some n"
    and right: "unat n = length (entries_of (host_AddItem H m s))"
    and nz: "n \<noteq> 0"
  shows "Suc (unat (NumChildren_read H h m s - 1)) = length (entries_of (host_AddItem H m s))"
proof -
  have "NumChildren_read H h m s = n"
    using count by (simp add: NumChildren_read_def)
  then show ?thesis
    using last_index_in_range(2) [OF nz] right by simp
qed

lemma appended_child_index:
  assumes appended: "entries_of (host_AddItem H m s) = entries_of s @ [e]"
    and count: "host_GetNumChildren H (host_AddItem H m s) h = Some n"
    and right: "unat n = length (entries_of (host_AddItem H m s))"
  shows "unat (NumChildren_read H h m s - 1) = length (entries_of s)"
    and "entries_of (host_AddItem H m s) ! unat (NumChildren_read H h m s - 1) = e"
proof -
  have "unat n = Suc (length (entries_of s))"
    using right appended by simp
  then have nz: "n \<noteq> 0" by auto
  show i: "unat (NumChildren_read H h m s - 1) = length (entries_of s)"
    using counted_child_index [of H m s h n entries_of] count right nz appended by simp
  show "entries_of (host_AddItem H m s) ! unat (NumChildren_read H h m s - 1) = e"
    using i appended by simp
qed

text \<open>
  Two writes at the last index of a list leave the rest of it.
\<close>

lemma writes_at_last_index:
  assumes "xs1 = old @ [e]"
    and "xs2 = xs1[length old := a]"
    and "xs3 = xs2[length old := b]"
  shows "length xs3 = Suc (length old)" and "take (length old) xs3 = old"
  using assms by simp_all

section \<open>The list-backed editors at work\<close>

text \<open>
  The list-backed editors, field by field.
\<close>

lemma list_host_sel [simp]:
  "host_GetObjectsBeingCustomized list_host = customized"
  "host_IsValid list_host = (\<lambda>s ob. ob \<in> set (alive s))"
  "host_IsA_UEntityComponent list_host = list_IsA_UEntityComponent"
  "host_GetProperty list_host = (\<lambda>s name. Property name)"
  "host_EditCategory list_host = (\<lambda>name s. (name, s\<lparr>categories := List.insert name (categories s)\<rparr>))"
  "host_GetPropertyUtilities list_host = (\<lambda>s. ())"
  "host_Render list_host = (\<lambda>h c u s. s\<lparr>rendered := Suc (rendered s)\<rparr>)"
  "host_AddCustomRow list_host = (\<lambda>c label content s. s\<lparr>rows := rows s @ [(c, label, content)]\<rparr>)"
  "host_AsMap list_host = list_AsMap"
  "host_AddItem list_host = list_AddItem"
  "host_GetNumChildren list_host = list_GetNumChildren"
  "host_GetChildHandle list_host = list_GetChildHandle"
  "host_GetKeyHandle list_host = list_GetKeyHandle"
  "host_SetValue list_host = list_SetValue"
  "host_Initialize list_host = list_Initialize"
  "host_ForceRefreshDetails list_host = (\<lambda>s. s\<lparr>refreshes := Suc (refreshes s)\<rparr>)"
  "host_ToString list_host = map hex_digit"
  by (simp_all add: list_host_def)

lemma frozen_host_sel [simp]:
  "host_IsValid frozen_host = (\<lambda>s ob. ob \<in> set (alive s))"
  "host_AsMap frozen_host = list_AsMap"
  "host_AddItem frozen_host = (\<lambda>m s. s)"
  "host_GetNumChildren frozen_host = list_GetNumChildren"
  "host_GetChildHandle frozen_host = list_GetChildHandle"
  "host_GetKeyHandle frozen_host = list_GetKeyHandle"
  "host_SetValue frozen_host = list_SetValue"
  "host_Initialize frozen_host = list_Initialize"
  "host_ForceRefreshDetails frozen_host = (\<lambda>s. s\<lparr>refreshes := Suc (refreshes s)\<rparr>)"
  "host_ToString frozen_host = map hex_digit"
  by (simp_all add: frozen_host_def list_host_def)

lemma miscount_host_sel [simp]:
  "host_IsValid miscount_host = (\<lambda>s ob. ob \<in> set (alive s))"
  "host_AsMap miscount_host = list_AsMap"
  "host_AddItem miscount_host = list_AddItem"
  "host_GetNumChildren miscount_host = (\<lambda>s h. Some 1)"
  "host_GetChildHandle miscount_host = list_GetChildHandle"
  "host_GetKeyHandle miscount_host = list_GetKeyHandle"
  "host_SetValue miscount_host = list_SetValue"
  "host_Initialize miscount_host = list_Initialize"
  "host_ForceRefreshDetails miscount_host = (\<lambda>s. s\<lparr>refreshes := Suc (refreshes s)\<rparr>)"
  "host_ToString miscount_host = map hex_digit"
  by (simp_all add: miscount_host_def list_host_def)

lemma silent_host_sel [simp]:
  "host_IsValid silent_host = (\<lambda>s ob. ob \<in> set (alive s))"
  "host_AsMap silent_host = list_AsMap"
  "host_AddItem silent_host = list_AddItem"
  "host_GetNumChildren silent_host = (\<lambda>s h. None)"
  "host_GetChildHandle silent_host = list_GetChildHandle"
  by (simp_all add: silent_host_def list_host_def)

lemma unique_host_sel [simp]:
  "host_IsValid unique_host = (\<lambda>s ob. ob \<in> set (alive s))"
  "host_AsMap unique_host = list_AsMap"
  "host_AddItem unique_host = unique_AddItem"
  "host_GetNumChildren unique_host = list_GetNumChildren"
  "host_GetChildHandle unique_host = list_GetChildHandle"
  "host_GetKeyHandle unique_host = list_GetKeyHandle"
  "host_SetValue unique_host = unique_SetValue"
  "host_Initialize unique_host = list_Initialize"
  "host_ForceRefreshDetails unique_host = (\<lambda>s. s\<lparr>refreshes := Suc (refreshes s)\<rparr>)"
  "host_ToString unique_host = map hex_digit"
  by (simp_all add: unique_host_def list_host_def)

text \<open>
  One pick of \<open>node0\<close> on \<open>world0\<close>: the map grows to two children and the callback
  works on the child at index 1.
\<close>

lemma NumChildren_read0:
  "NumChildren_read list_host (Property ''Components'') (MapView ''Components'') editor0 = 2"
  by (simp add: NumChildren_read_def editor0_def)

lemma pick0_node: "Some node0 = Some node0"
  by simp

lemma pick0_component: "\<not> is_nullptr list_host (host_state world0) (Component captures0)"
  by (simp add: is_nullptr_def world0_def editor0_def captures0_def)

lemma pick0_map:
  "host_AsMap list_host (host_state world0) (ComponentsHandle captures0) = Some (MapView ''Components'')"
  by (simp add: captures0_def)

lemma pick0_child:
  "host_GetChildHandle list_host (host_AddItem list_host (MapView ''Components'') (host_state world0))
     (ComponentsHandle captures0)
     (NumChildren_read list_host (ComponentsHandle captures0) (MapView ''Components'')
        (host_state world0) - 1) = Some (Child 1)"
  by (simp add: captures0_def world0_def NumChildren_read0) (simp add: editor0_def)

lemma pick0_key:
  "host_GetKeyHandle list_host (host_AddItem list_host (MapView ''Components'') (host_state world0))
     (Child 1) = Some (Key 1)"
  by simp

lemma pick0_appended:
  "entries (host_AddItem list_host (MapView ''Components'') (host_state world0)) =
     entries (host_state world0) @ [([], None)] \<and>
   host_GetNumChildren list_host (host_AddItem list_host (MapView ''Components'') (host_state world0))
     (ComponentsHandle captures0) = Some 2 \<and>
   unat (2 :: u32) =
     length (entries (host_AddItem list_host (MapView ''Components'') (host_state world0)))"
  by (simp add: captures0_def world0_def editor0_def)

lemma pick0_index:
  "unat (NumChildren_read list_host (ComponentsHandle captures0) (MapView ''Components'')
           (host_state world0) - 1) = 1"
  by (simp add: captures0_def world0_def NumChildren_read0)

lemma pick0_stored:
  "fst (entries (host_SetValue list_host (Key 1) (host_ToString list_host (node_Id node0))
          (host_AddItem list_host (MapView ''Components'') (host_state world0))) ! 1) =
     host_ToString list_host (node_Id node0)"
  "fst (entries (host_Initialize list_host (Child 1) (node_Id node0)
          (host_SetValue list_host (Key 1) (host_ToString list_host (node_Id node0))
            (host_AddItem list_host (MapView ''Components'') (host_state world0)))) ! 1) =
   fst (entries (host_SetValue list_host (Key 1) (host_ToString list_host (node_Id node0))
          (host_AddItem list_host (MapView ''Components'') (host_state world0))) ! 1)"
  "entries (host_ForceRefreshDetails list_host
      (host_Initialize list_host (Child 1) (node_Id node0)
          (host_SetValue list_host (Key 1) (host_ToString list_host (node_Id node0))
            (host_AddItem list_host (MapView ''Components'') (host_state world0))))) =
   entries (host_Initialize list_host (Child 1) (node_Id node0)
          (host_SetValue list_host (Key 1) (host_ToString list_host (node_Id node0))
            (host_AddItem list_host (MapView ''Components'') (host_state world0))))"
  by (simp_all add: world0_def editor0_def node0_def)

text \<open>
  The same pick on the editor that keeps its keys unique.
\<close>

lemma unique0_read:
  "NumChildren_read unique_host (Property ''Components'') (MapView ''Components'') editor0 = 2"
  by (simp add: NumChildren_read_def editor0_def)

lemma unique0_component: "\<not> is_nullptr unique_host (host_state world0) (Component captures0)"
  by (simp add: is_nullptr_def world0_def editor0_def captures0_def)

lemma unique0_map:
  "host_AsMap unique_host (host_state world0) (ComponentsHandle captures0) = Some (MapView ''Components'')"
  by (simp add: captures0_def)

lemma unique0_child:
  "host_GetChildHandle unique_host (host_AddItem unique_host (MapView ''Components'') (host_state world0))
     (ComponentsHandle captures0)
     (NumChildren_read unique_host (ComponentsHandle captures0) (MapView ''Components'')
        (host_state world0) - 1) = Some (Child 1)"
  by (simp add: captures0_def world0_def unique0_read) (simp add: editor0_def)

lemma unique0_key:
  "host_GetKeyHandle unique_host (host_AddItem unique_host (MapView ''Components'') (host_state world0))
     (Child 1) = Some (Key 1)"
  by simp

lemma unique0_index:
  "unat (NumChildren_read unique_host (ComponentsHandle captures0) (MapView ''Components'')
           (host_state world0) - 1) = 1"
  by (simp add: captures0_def world0_def unique0_read)

lemma unique0_appended:
  "entries (host_AddItem unique_host (MapView ''Components'') (host_state world0)) =
     entries (host_state world0) @ [([], None)] \<and>
   host_GetNumChildren unique_host (host_AddItem unique_host (MapView ''Components'') (host_state world0))
     (ComponentsHandle captures0) = Some 2 \<and>
   unat (2 :: u32) =
     length (entries (host_AddItem unique_host (MapView ''Components'') (host_state world0)))"
  by (simp add: captures0_def world0_def editor0_def)

lemma unique0_writes:
  "entries (host_SetValue unique_host (Key 1) (host_ToString unique_host (node_Id node0))
      (host_AddItem unique_host (MapView ''Components'') (host_state world0))) =
     [(''AB'', Some [10, 11]), (''12F'', None)]"
  "entries (host_Initialize unique_host (Child 1) (node_Id node0)
      (host_SetValue unique_host (Key 1) (host_ToString unique_host (node_Id node0))
        (host_AddItem unique_host (MapView ''Components'') (host_state world0)))) =
     [(''AB'', Some [10, 11]), (''12F'', Some [1, 2, 15])]"
  "entries (host_ForceRefreshDetails unique_host
      (host_Initialize unique_host (Child 1) (node_Id node0)
        (host_SetValue unique_host (Key 1) (host_ToString unique_host (node_Id node0))
          (host_AddItem unique_host (MapView ''Components'') (host_state world0))))) =
     [(''AB'', Some [10, 11]), (''12F'', Some [1, 2, 15])]"
  "entries (host_AddItem unique_host (MapView ''Components'') (host_state world0)) =
     [(''AB'', Some [10, 11]), ([], None)]"
  by (simp_all add: world0_def editor0_def node0_def)

text \<open>
  A pick on the empty map that refuses the item.
\<close>

lemma NumChildren_read_frozen:
  "NumChildren_read frozen_host (Property ''Components'') (MapView ''Components'') editor_empty = 0"
  by (simp add: NumChildren_read_def editor_empty_def editor0_def)

lemma frozen_empty_component:
  "\<not> is_nullptr frozen_host (host_state \<lparr>host_state = editor_empty, calls = []\<rparr>) (Component captures0)"
  by (simp add: is_nullptr_def editor_empty_def editor0_def captures0_def)

lemma frozen_empty_map:
  "host_AsMap frozen_host (host_state \<lparr>host_state = editor_empty, calls = []\<rparr>)
     (ComponentsHandle captures0) = Some (MapView ''Components'')"
  by (simp add: captures0_def)

section \<open>The pick callback\<close>

text \<open>
  C1. A pick event that delivers a node while the component is alive, on an editor that
  hands back the handles the callback asks for (the map view of the property, the child
  at \<^verbatim>\<open>NumChildren - 1\<close> and that child's key handle), returns normally. What it did to the
  editor is, in this order and nothing else: one \<^verbatim>\<open>AddItem\<close> on the map view, one \<^verbatim>\<open>SetValue\<close>
  of \<^verbatim>\<open>Node->Id.ToString()\<close> through the key handle of that child, one
  \<^verbatim>\<open>FDynamicRustComponent::Initialize\<close> of that child with \<^verbatim>\<open>Node->Id\<close>, and last one
  \<^verbatim>\<open>ForceRefreshDetails\<close>; the calls it made are these, with the three queries for the
  handles and the count before the writes. The child is the entry \<^verbatim>\<open>AddItem\<close> appended
  whenever the item was appended last and the count read is the number of children.
\<close>

theorem OnPicked_effects_in_order:
  fixes H :: "('s, 'h, 'o, 'g, 'c, 'u) host" and w :: "('s, 'h, 'o, 'g, 'c, 'u) world"
    and cap :: "('o, 'h) OnPicked_captures" and N :: "'g FUuidViewNode"
    and m c k :: 'h and entries_of :: "'s \<Rightarrow> 'e list"
  defines "s \<equiv> host_state w"
  defines "h \<equiv> ComponentsHandle cap"
  defines "s1 \<equiv> host_AddItem H m s"
  defines "i \<equiv> NumChildren_read H h m s - 1"
  defines "s2 \<equiv> host_SetValue H k (host_ToString H (node_Id N)) s1"
  defines "s3 \<equiv> host_Initialize H c (node_Id N) s2"
  assumes node: "Node = Some N"
    and comp: "\<not> is_nullptr H s (Component cap)"
    and map: "host_AsMap H s h = Some m"
    and child: "host_GetChildHandle H s1 h i = Some c"
    and key: "host_GetKeyHandle H s1 c = Some k"
  shows "OnPicked H cap Node w =
           Inr \<lparr>host_state = host_ForceRefreshDetails H s3,
                calls = calls w @
                  [Call_AsMap h, Call_AddItem m, Call_GetNumChildren h, Call_GetChildHandle h i,
                   Call_GetKeyHandle c, Call_SetValue k (host_ToString H (node_Id N)),
                   Call_Initialize c (node_Id N), Call_ForceRefreshDetails]\<rparr> \<and>
         (entries_of s1 = entries_of s @ [e] \<and> host_GetNumChildren H s1 h = Some n \<and>
            unat n = length (entries_of s1)
          \<longrightarrow> unat i = length (entries_of s) \<and> entries_of s1 ! unat i = e)"
proof (intro conjI impI)
  show "OnPicked H cap Node w =
           Inr \<lparr>host_state = host_ForceRefreshDetails H s3,
                calls = calls w @
                  [Call_AsMap h, Call_AddItem m, Call_GetNumChildren h, Call_GetChildHandle h i,
                   Call_GetKeyHandle c, Call_SetValue k (host_ToString H (node_Id N)),
                   Call_Initialize c (node_Id N), Call_ForceRefreshDetails]\<rparr>"
    using OnPicked_returns [OF node comp [unfolded s_def] map [unfolded s_def h_def]
        child [unfolded s1_def s_def h_def i_def] key [unfolded s1_def s_def]]
    unfolding s_def h_def s1_def i_def s2_def s3_def .
next
  assume a: "entries_of s1 = entries_of s @ [e] \<and> host_GetNumChildren H s1 h = Some n \<and>
               unat n = length (entries_of s1)"
  show "unat i = length (entries_of s)" and "entries_of s1 ! unat i = e"
    using appended_child_index [of entries_of H m s e h n] a
    unfolding s1_def i_def by simp_all
qed

text \<open>
  Without the handles the statement fails. On the empty map that refuses the item, a
  pick with a node and a live component reads a count of 0, asks for the child at
  4294967295, gets none and stops on the null handle: no key is set, nothing is
  initialized and no refresh is requested.
\<close>

theorem OnPicked_effects_in_order_counterexample:
  "\<not> is_nullptr frozen_host editor_empty (Component captures0) \<and>
   OnPicked frozen_host captures0 (Some node0) \<lparr>host_state = editor_empty, calls = []\<rparr> =
     Inl (NullPointerDereference,
          \<lparr>host_state = editor_empty,
           calls = [Call_AsMap (Property ''Components''), Call_AddItem (MapView ''Components''),
                    Call_GetNumChildren (Property ''Components''),
                    Call_GetChildHandle (Property ''Components'') 4294967295]\<rparr>)"
  by (simp add: OnPicked_def call_defs Let_def is_nullptr_def captures0_def node0_def
      editor_empty_def editor0_def max_u32)

text \<open>
  The pick of \<open>node0\<close> on the list-backed editor.
\<close>

theorem OnPicked_effects_in_order_witness:
  "OnPicked list_host captures0 (Some node0) world0 =
     Inr \<lparr>host_state = editor0\<lparr>entries := [(''AB'', Some [10, 11]), (''12F'', Some [1, 2, 15])],
                                refreshes := 1\<rparr>,
          calls = [Call_AsMap (Property ''Components''), Call_AddItem (MapView ''Components''),
                   Call_GetNumChildren (Property ''Components''),
                   Call_GetChildHandle (Property ''Components'') 1,
                   Call_GetKeyHandle (Child 1),
                   Call_SetValue (Key 1) ''12F'',
                   Call_Initialize (Child 1) [1, 2, 15],
                   Call_ForceRefreshDetails]\<rparr> \<and>
   unat (NumChildren_read list_host (Property ''Components'') (MapView ''Components'') editor0 - 1) =
     length (entries editor0) \<and>
   entries (list_AddItem (MapView ''Components'') editor0) ! 1 = ([], None)"
proof -
  note t = OnPicked_effects_in_order [OF pick0_node pick0_component pick0_map pick0_child pick0_key,
      where entries_of = entries and e = "([], None)" and n = 2]
  have run: "OnPicked list_host captures0 (Some node0) world0 =
     Inr \<lparr>host_state = editor0\<lparr>entries := [(''AB'', Some [10, 11]), (''12F'', Some [1, 2, 15])],
                                refreshes := 1\<rparr>,
          calls = [Call_AsMap (Property ''Components''), Call_AddItem (MapView ''Components''),
                   Call_GetNumChildren (Property ''Components''),
                   Call_GetChildHandle (Property ''Components'') 1,
                   Call_GetKeyHandle (Child 1),
                   Call_SetValue (Key 1) ''12F'',
                   Call_Initialize (Child 1) [1, 2, 15],
                   Call_ForceRefreshDetails]\<rparr>"
    using t [THEN conjunct1]
    by (simp add: captures0_def world0_def NumChildren_read0 node0_def) (simp add: editor0_def)
  have idx: "unat (NumChildren_read list_host (Property ''Components'') (MapView ''Components'') editor0 - 1) =
     length (entries editor0) \<and>
   entries (list_AddItem (MapView ''Components'') editor0) ! 1 = ([], None)"
    using t [THEN conjunct2, rule_format, OF pick0_appended]
    by (simp add: captures0_def world0_def NumChildren_read0)
  show ?thesis using run idx by simp
qed

text \<open>
  C2. A pick event whose node is null, or whose component pointer compares equal to null,
  returns at once: the callback hands back the world it was given, so the editor state is
  the same and no call was made (no item added, no key set, no initialization, no refresh).
\<close>

theorem OnPicked_null_guard:
  assumes "Node = None \<or> is_nullptr H (host_state w) (Component cap)"
  shows "OnPicked H cap Node w = Inr w"
  using assms by (auto simp: OnPicked_def split: option.splits)

text \<open>
  On the list-backed editor: a null node; a null component pointer; a component that is
  no longer alive.
\<close>

theorem OnPicked_null_guard_witness:
  "OnPicked list_host captures0 None world0 = Inr world0 \<and>
   OnPicked list_host (captures0\<lparr>Component := None\<rparr>) (Some \<lparr>node_Id = [1, 2, 15]\<rparr>) world0 = Inr world0 \<and>
   OnPicked list_host (captures0\<lparr>Component := Some (EntityComponent 8)\<rparr>) (Some \<lparr>node_Id = [1, 2, 15]\<rparr>) world0
     = Inr world0"
proof -
  have a: "(None :: nat list FUuidViewNode option) = None \<or>
           is_nullptr list_host (host_state world0) (Component captures0)"
    by simp
  have b: "Some \<lparr>node_Id = [1, 2, 15 :: nat]\<rparr> = None \<or>
           is_nullptr list_host (host_state world0) (Component (captures0\<lparr>Component := None\<rparr>))"
    by (simp add: is_nullptr_def)
  have c: "Some \<lparr>node_Id = [1, 2, 15 :: nat]\<rparr> = None \<or>
           is_nullptr list_host (host_state world0)
             (Component (captures0\<lparr>Component := Some (EntityComponent 8)\<rparr>))"
    by (simp add: is_nullptr_def world0_def editor0_def)
  show ?thesis
    using OnPicked_null_guard [OF a] OnPicked_null_guard [OF b] OnPicked_null_guard [OF c]
    by simp
qed

text \<open>
  C4. A pick event that runs to its end (a node, a live component, the handles handed
  back) makes two writes and no other: \<^verbatim>\<open>SetValue\<close> of exactly \<^verbatim>\<open>Node->Id.ToString()\<close> through
  the key handle of the child fetched at \<^verbatim>\<open>NumChildren - 1\<close>, and \<^verbatim>\<open>Initialize\<close> of that child
  with the same \<^verbatim>\<open>Node->Id\<close>; the editor state it leaves is the one these writes and the
  refresh produce from the state with the item added. When the item was appended last
  and the count read is the number of children, that child is the appended entry; and
  when, further, the editor stores the key written and the initialization and the
  refresh leave it, the appended entry ends keyed by that string.
\<close>

theorem OnPicked_key_is_uuid_string:
  fixes H :: "('s, 'h, 'o, 'g, 'c, 'u) host" and w :: "('s, 'h, 'o, 'g, 'c, 'u) world"
    and cap :: "('o, 'h) OnPicked_captures" and N :: "'g FUuidViewNode"
    and m c k :: 'h and entries_of :: "'s \<Rightarrow> 'e list" and key_of :: "'e \<Rightarrow> string"
  defines "s \<equiv> host_state w"
  defines "h \<equiv> ComponentsHandle cap"
  defines "s1 \<equiv> host_AddItem H m s"
  defines "i \<equiv> NumChildren_read H h m s - 1"
  defines "v \<equiv> host_ToString H (node_Id N)"
  defines "s2 \<equiv> host_SetValue H k v s1"
  defines "s3 \<equiv> host_Initialize H c (node_Id N) s2"
  defines "s4 \<equiv> host_ForceRefreshDetails H s3"
  assumes node: "Node = Some N"
    and comp: "\<not> is_nullptr H s (Component cap)"
    and map: "host_AsMap H s h = Some m"
    and child: "host_GetChildHandle H s1 h i = Some c"
    and key: "host_GetKeyHandle H s1 c = Some k"
  shows "(\<exists>w'. OnPicked H cap Node w = Inr w') \<and>
         filter is_write (calls_since w (final_world (OnPicked H cap Node w))) =
           [Call_SetValue k v, Call_Initialize c (node_Id N)] \<and>
         host_state (final_world (OnPicked H cap Node w)) = s4 \<and>
         (entries_of s1 = entries_of s @ [e] \<and> host_GetNumChildren H s1 h = Some n \<and>
            unat n = length (entries_of s1)
          \<longrightarrow> unat i = length (entries_of s) \<and> entries_of s1 ! unat i = e \<and>
              (key_of (entries_of s2 ! unat i) = v \<and>
               key_of (entries_of s3 ! unat i) = key_of (entries_of s2 ! unat i) \<and>
               entries_of s4 = entries_of s3
               \<longrightarrow> key_of (entries_of (host_state (final_world (OnPicked H cap Node w)))
                             ! length (entries_of s)) = v))"
proof -
  note run = OnPicked_completes [OF node comp [unfolded s_def] map [unfolded s_def h_def]
      child [unfolded s1_def s_def h_def i_def] key [unfolded s1_def s_def]]
  have st: "host_state (final_world (OnPicked H cap Node w)) = s4"
    using run(3) unfolding s_def s1_def s2_def s3_def s4_def v_def .
  have wr: "filter is_write (calls_since w (final_world (OnPicked H cap Node w))) =
           [Call_SetValue k v, Call_Initialize c (node_Id N)]"
    using run(2) unfolding v_def .
  have idx: "unat i = length (entries_of s) \<and> entries_of s1 ! unat i = e"
    if a: "entries_of s1 = entries_of s @ [e] \<and> host_GetNumChildren H s1 h = Some n \<and>
            unat n = length (entries_of s1)"
    using appended_child_index [of entries_of H m s e h n] a unfolding s1_def i_def by simp
  show ?thesis
    using run(1) wr st idx by auto
qed

text \<open>
  Without these conditions an added entry can end with another key. On the editor that
  reports a count of 1, the pick of \<open>node0\<close> writes through child 0 and the added entry
  keeps the empty key. On the editor that keeps its keys unique, picking \<open>node0\<close> when
  its string is a key already has the write refused, and the added entry keeps the
  empty key.
\<close>

theorem OnPicked_key_is_uuid_string_counterexample:
  "OnPicked miscount_host captures0 (Some node0) world0 =
     Inr \<lparr>host_state = editor0\<lparr>entries := [(''12F'', Some [1, 2, 15]), ([], None)], refreshes := 1\<rparr>,
          calls = [Call_AsMap (Property ''Components''), Call_AddItem (MapView ''Components''),
                   Call_GetNumChildren (Property ''Components''),
                   Call_GetChildHandle (Property ''Components'') 0,
                   Call_GetKeyHandle (Child 0),
                   Call_SetValue (Key 0) ''12F'',
                   Call_Initialize (Child 0) [1, 2, 15],
                   Call_ForceRefreshDetails]\<rparr> \<and>
   OnPicked unique_host captures0 (Some node0) \<lparr>host_state = editor_picked, calls = []\<rparr> =
     Inr \<lparr>host_state = editor_picked\<lparr>entries := [(''12F'', Some [1, 2, 15]), ([], Some [1, 2, 15])],
                                      refreshes := 1\<rparr>,
          calls = [Call_AsMap (Property ''Components''), Call_AddItem (MapView ''Components''),
                   Call_GetNumChildren (Property ''Components''),
                   Call_GetChildHandle (Property ''Components'') 1,
                   Call_GetKeyHandle (Child 1),
                   Call_SetValue (Key 1) ''12F'',
                   Call_Initialize (Child 1) [1, 2, 15],
                   Call_ForceRefreshDetails]\<rparr>"
  by (simp add: OnPicked_def call_defs Let_def is_nullptr_def captures0_def node0_def world0_def
      editor_picked_def editor0_def)

text \<open>
  On the list-backed editor the new entry ends keyed by the string of the picked
  identifier and initialized with that identifier.
\<close>

theorem OnPicked_key_is_uuid_string_witness:
  "(\<exists>w'. OnPicked list_host captures0 (Some node0) world0 = Inr w') \<and>
   filter is_write (calls_since world0 (final_world (OnPicked list_host captures0 (Some node0) world0))) =
     [Call_SetValue (Key 1) (map hex_digit [1, 2, 15]), Call_Initialize (Child 1) [1, 2, 15]] \<and>
   fst (entries (host_state (final_world (OnPicked list_host captures0 (Some node0) world0))) ! 1) =
     ''12F'' \<and>
   entries (host_state (final_world (OnPicked list_host captures0 (Some node0) world0))) =
     [(''AB'', Some [10, 11]), (''12F'', Some [1, 2, 15])]"
proof -
  note t = OnPicked_key_is_uuid_string [OF pick0_node pick0_component pick0_map pick0_child pick0_key,
      where entries_of = entries and e = "([], None)" and n = 2 and key_of = fst]
  have a: "(\<exists>w'. OnPicked list_host captures0 (Some node0) world0 = Inr w') \<and>
     filter is_write (calls_since world0 (final_world (OnPicked list_host captures0 (Some node0) world0))) =
       [Call_SetValue (Key 1) (map hex_digit [1, 2, 15]), Call_Initialize (Child 1) [1, 2, 15]]"
    using t by (simp add: node0_def)
  have st: "entries (host_state (final_world (OnPicked list_host captures0 (Some node0) world0))) =
     [(''AB'', Some [10, 11]), (''12F'', Some [1, 2, 15])]"
    using t [THEN conjunct2, THEN conjunct2, THEN conjunct1]
    by (simp add: node0_def world0_def editor0_def)
  have k: "fst (entries (host_state (final_world (OnPicked list_host captures0 (Some node0) world0))) !
             length (entries (host_state world0))) =
           host_ToString list_host (node_Id node0)"
    using t [THEN conjunct2, THEN conjunct2, THEN conjunct2, rule_format, OF pick0_appended,
        THEN conjunct2, THEN conjunct2, rule_format] pick0_stored
    by (simp add: pick0_index)
  have k': "fst (entries (host_state (final_world (OnPicked list_host captures0 (Some node0) world0))) ! 1) =
     ''12F''"
    using k by (simp add: world0_def editor0_def node0_def)
  show ?thesis using a st k' by simp
qed

text \<open>
  C6. A pick event that runs to its end writes only through the child handle fetched at
  \<^verbatim>\<open>NumChildren - 1\<close> and that child's key handle. When the item was appended last and the
  count read is the number of children, that index is the number of entries there were
  before, so the child written is the appended entry; and when, further, each of the two
  writes changes no child but the one at that index and the refresh changes none, the
  map ends one entry longer and every entry that was there before, key and value, is as
  it was.
\<close>

theorem OnPicked_frame:
  fixes H :: "('s, 'h, 'o, 'g, 'c, 'u) host" and w :: "('s, 'h, 'o, 'g, 'c, 'u) world"
    and cap :: "('o, 'h) OnPicked_captures" and N :: "'g FUuidViewNode"
    and m c k :: 'h and entries_of :: "'s \<Rightarrow> 'e list"
  defines "s \<equiv> host_state w"
  defines "h \<equiv> ComponentsHandle cap"
  defines "s1 \<equiv> host_AddItem H m s"
  defines "i \<equiv> NumChildren_read H h m s - 1"
  defines "s2 \<equiv> host_SetValue H k (host_ToString H (node_Id N)) s1"
  defines "s3 \<equiv> host_Initialize H c (node_Id N) s2"
  defines "s4 \<equiv> host_ForceRefreshDetails H s3"
  assumes node: "Node = Some N"
    and comp: "\<not> is_nullptr H s (Component cap)"
    and map: "host_AsMap H s h = Some m"
    and child: "host_GetChildHandle H s1 h i = Some c"
    and key: "host_GetKeyHandle H s1 c = Some k"
  shows "(\<exists>w'. OnPicked H cap Node w = Inr w') \<and>
         filter is_write (calls_since w (final_world (OnPicked H cap Node w))) =
           [Call_SetValue k (host_ToString H (node_Id N)), Call_Initialize c (node_Id N)] \<and>
         host_state (final_world (OnPicked H cap Node w)) = s4 \<and>
         (entries_of s1 = entries_of s @ [e] \<and> host_GetNumChildren H s1 h = Some n \<and>
            unat n = length (entries_of s1)
          \<longrightarrow> unat i = length (entries_of s) \<and> entries_of s1 ! unat i = e \<and>
              (entries_of s2 = (entries_of s1)[unat i := entries_of s2 ! unat i] \<and>
               entries_of s3 = (entries_of s2)[unat i := entries_of s3 ! unat i] \<and>
               entries_of s4 = entries_of s3
               \<longrightarrow> length (entries_of (host_state (final_world (OnPicked H cap Node w)))) =
                     Suc (length (entries_of s)) \<and>
                   take (length (entries_of s))
                     (entries_of (host_state (final_world (OnPicked H cap Node w)))) =
                     entries_of s))"
proof -
  note run = OnPicked_completes [OF node comp [unfolded s_def] map [unfolded s_def h_def]
      child [unfolded s1_def s_def h_def i_def] key [unfolded s1_def s_def]]
  have st: "host_state (final_world (OnPicked H cap Node w)) = s4"
    using run(3) unfolding s_def s1_def s2_def s3_def s4_def .
  have idx: "unat i = length (entries_of s) \<and> entries_of s1 ! unat i = e"
    if a: "entries_of s1 = entries_of s @ [e] \<and> host_GetNumChildren H s1 h = Some n \<and>
            unat n = length (entries_of s1)"
    using appended_child_index [of entries_of H m s e h n] a unfolding s1_def i_def by simp
  have frame: "length (entries_of s4) = Suc (length (entries_of s)) \<and>
               take (length (entries_of s)) (entries_of s4) = entries_of s"
    if a: "entries_of s1 = entries_of s @ [e] \<and> host_GetNumChildren H s1 h = Some n \<and>
            unat n = length (entries_of s1)"
      and b: "entries_of s2 = (entries_of s1)[unat i := entries_of s2 ! unat i] \<and>
              entries_of s3 = (entries_of s2)[unat i := entries_of s3 ! unat i] \<and>
              entries_of s4 = entries_of s3"
  proof -
    have i: "unat i = length (entries_of s)" using idx [OF a] by simp
    have x1: "entries_of s1 = entries_of s @ [e]" using a by simp
    have x2: "entries_of s2 = (entries_of s1)[length (entries_of s) := entries_of s2 ! unat i]"
      using b i by simp
    have x3: "entries_of s3 = (entries_of s2)[length (entries_of s) := entries_of s3 ! unat i]"
      using b i by simp
    show ?thesis
      using writes_at_last_index [OF x1 x2 x3] b by simp
  qed
  show ?thesis
    using run(1) run(2) idx frame unfolding st by blast
qed

text \<open>
  Without the appended item the statement fails. On the map that refuses the item and
  holds the entry AB, the pick of \<open>node0\<close> runs to its end on child 0: the entry that was
  there before gets the new key and the new value.
\<close>

theorem OnPicked_frame_counterexample:
  "entries editor0 = [(''AB'', Some [10, 11])] \<and>
   OnPicked frozen_host captures0 (Some node0) world0 =
     Inr \<lparr>host_state = editor0\<lparr>entries := [(''12F'', Some [1, 2, 15])], refreshes := 1\<rparr>,
          calls = [Call_AsMap (Property ''Components''), Call_AddItem (MapView ''Components''),
                   Call_GetNumChildren (Property ''Components''),
                   Call_GetChildHandle (Property ''Components'') 0,
                   Call_GetKeyHandle (Child 0),
                   Call_SetValue (Key 0) ''12F'',
                   Call_Initialize (Child 0) [1, 2, 15],
                   Call_ForceRefreshDetails]\<rparr>"
  by (simp add: OnPicked_def call_defs Let_def is_nullptr_def captures0_def node0_def world0_def
      editor0_def)

text \<open>
  The pick of \<open>node0\<close> on the editor that keeps its keys unique: the entry at index 0
  stays.
\<close>

theorem OnPicked_frame_witness:
  "(\<exists>w'. OnPicked unique_host captures0 (Some node0) world0 = Inr w') \<and>
   filter is_write (calls_since world0 (final_world (OnPicked unique_host captures0 (Some node0) world0))) =
     [Call_SetValue (Key 1) ''12F'', Call_Initialize (Child 1) [1, 2, 15]] \<and>
   entries (host_state world0) = [(''AB'', Some [10, 11])] \<and>
   length (entries (host_state (final_world (OnPicked unique_host captures0 (Some node0) world0)))) = 2 \<and>
   take 1 (entries (host_state (final_world (OnPicked unique_host captures0 (Some node0) world0)))) =
     [(''AB'', Some [10, 11])]"
proof -
  note t = OnPicked_frame [OF pick0_node unique0_component unique0_map unique0_child unique0_key,
      where entries_of = entries and e = "([], None)" and n = 2]
  have a: "(\<exists>w'. OnPicked unique_host captures0 (Some node0) world0 = Inr w') \<and>
     filter is_write (calls_since world0 (final_world (OnPicked unique_host captures0 (Some node0) world0))) =
       [Call_SetValue (Key 1) ''12F'', Call_Initialize (Child 1) [1, 2, 15]]"
    using t by (simp add: node0_def)
  have old: "entries (host_state world0) = [(''AB'', Some [10, 11])]"
    by (simp add: world0_def editor0_def)
  have writes:
    "entries (host_SetValue unique_host (Key 1) (host_ToString unique_host (node_Id node0))
        (host_AddItem unique_host (MapView ''Components'') (host_state world0))) =
     (entries (host_AddItem unique_host (MapView ''Components'') (host_state world0)))
       [unat (NumChildren_read unique_host (ComponentsHandle captures0) (MapView ''Components'')
           (host_state world0) - 1) :=
        entries (host_SetValue unique_host (Key 1) (host_ToString unique_host (node_Id node0))
          (host_AddItem unique_host (MapView ''Components'') (host_state world0))) !
        unat (NumChildren_read unique_host (ComponentsHandle captures0) (MapView ''Components'')
           (host_state world0) - 1)] \<and>
     entries (host_Initialize unique_host (Child 1) (node_Id node0)
        (host_SetValue unique_host (Key 1) (host_ToString unique_host (node_Id node0))
          (host_AddItem unique_host (MapView ''Components'') (host_state world0)))) =
     (entries (host_SetValue unique_host (Key 1) (host_ToString unique_host (node_Id node0))
        (host_AddItem unique_host (MapView ''Components'') (host_state world0))))
       [unat (NumChildren_read unique_host (ComponentsHandle captures0) (MapView ''Components'')
           (host_state world0) - 1) :=
        entries (host_Initialize unique_host (Child 1) (node_Id node0)
          (host_SetValue unique_host (Key 1) (host_ToString unique_host (node_Id node0))
            (host_AddItem unique_host (MapView ''Components'') (host_state world0)))) !
        unat (NumChildren_read unique_host (ComponentsHandle captures0) (MapView ''Components'')
           (host_state world0) - 1)] \<and>
     entries (host_ForceRefreshDetails unique_host
        (host_Initialize unique_host (Child 1) (node_Id node0)
          (host_SetValue unique_host (Key 1) (host_ToString unique_host (node_Id node0))
            (host_AddItem unique_host (MapView ''Components'') (host_state world0))))) =
     entries (host_Initialize unique_host (Child 1) (node_Id node0)
        (host_SetValue unique_host (Key 1) (host_ToString unique_host (node_Id node0))
          (host_AddItem unique_host (MapView ''Components'') (host_state world0))))"
    unfolding unique0_writes unique0_index by simp
  have f: "length (entries (host_state (final_world (OnPicked unique_host captures0 (Some node0) world0)))) =
             Suc (length (entries (host_state world0))) \<and>
           take (length (entries (host_state world0)))
             (entries (host_state (final_world (OnPicked unique_host captures0 (Some node0) world0)))) =
             entries (host_state world0)"
    using t [THEN conjunct2, THEN conjunct2, THEN conjunct2, rule_format, OF unique0_appended,
        THEN conjunct2, THEN conjunct2, rule_format, OF writes] .
  show ?thesis using a f old by simp
qed

text \<open>
  C10. Past its guard the callback fetches the child at the 32-bit unsigned index
  \<^verbatim>\<open>NumChildren - 1\<close>, where \<^verbatim>\<open>NumChildren\<close> is the count read after \<^verbatim>\<open>AddItem\<close> (0 when
  the editor reports none). When the count read is the number of children and is not
  zero, the index is in range and is the last one; when, in addition, the item was
  appended last, the child at the index is the appended entry. When the count read is
  zero the subtraction wraps to 4294967295, the greatest index there is and not below
  the count; and whenever the editor has no child at the index, the callback stops on
  the null handle with the item added and nothing written.
\<close>

theorem OnPicked_child_index:
  fixes H :: "('s, 'h, 'o, 'g, 'c, 'u) host" and w :: "('s, 'h, 'o, 'g, 'c, 'u) world"
    and cap :: "('o, 'h) OnPicked_captures" and m :: 'h and entries_of :: "'s \<Rightarrow> 'e list"
  defines "s \<equiv> host_state w"
  defines "h \<equiv> ComponentsHandle cap"
  defines "s1 \<equiv> host_AddItem H m s"
  defines "i \<equiv> NumChildren_read H h m s - 1"
  assumes node: "Node = Some N"
    and comp: "\<not> is_nullptr H s (Component cap)"
    and map: "host_AsMap H s h = Some m"
  shows "Call_GetChildHandle h i \<in> set (calls_since w (final_world (OnPicked H cap Node w))) \<and>
         (host_GetNumChildren H s1 h = Some n \<and> unat n = length (entries_of s1) \<and> n \<noteq> 0
          \<longrightarrow> unat i < length (entries_of s1) \<and> Suc (unat i) = length (entries_of s1)) \<and>
         (entries_of s1 = entries_of s @ [e] \<and> host_GetNumChildren H s1 h = Some n \<and>
            unat n = length (entries_of s1)
          \<longrightarrow> unat i = length (entries_of s) \<and> entries_of s1 ! unat i = e) \<and>
         (NumChildren_read H h m s = 0
          \<longrightarrow> i = 4294967295 \<and> (\<forall>j :: u32. unat j \<le> unat i) \<and>
              \<not> unat i < unat (NumChildren_read H h m s)) \<and>
         (host_GetChildHandle H s1 h i = None
          \<longrightarrow> OnPicked H cap Node w =
                Inl (NullPointerDereference,
                     \<lparr>host_state = s1,
                      calls = calls w @
                        [Call_AsMap h, Call_AddItem m, Call_GetNumChildren h,
                         Call_GetChildHandle h i]\<rparr>))"
proof -
  have comp': "\<not> is_nullptr H (host_state w) (Component cap)"
    using comp by (simp add: s_def)
  have map': "host_AsMap H (host_state w) (ComponentsHandle cap) = Some m"
    using map by (simp add: s_def h_def)
  have fetch: "Call_GetChildHandle h i \<in> set (calls_since w (final_world (OnPicked H cap Node w)))"
    unfolding s_def h_def i_def by (rule OnPicked_fetches_child [OF node comp' map'])
  have last: "unat i < length (entries_of s1) \<and> Suc (unat i) = length (entries_of s1)"
    if a: "host_GetNumChildren H s1 h = Some n \<and> unat n = length (entries_of s1) \<and> n \<noteq> 0"
    using counted_child_index [of H m s h n entries_of] a unfolding s1_def i_def by simp
  have new: "unat i = length (entries_of s) \<and> entries_of s1 ! unat i = e"
    if a: "entries_of s1 = entries_of s @ [e] \<and> host_GetNumChildren H s1 h = Some n \<and>
            unat n = length (entries_of s1)"
    using appended_child_index [of entries_of H m s e h n] a unfolding s1_def i_def by simp
  have wrap: "i = 4294967295 \<and> (\<forall>j :: u32. unat j \<le> unat i) \<and>
              \<not> unat i < unat (NumChildren_read H h m s)"
    if z: "NumChildren_read H h m s = 0"
    using z max_u32_is_greatest unfolding i_def by (simp add: max_u32)
  have stop: "OnPicked H cap Node w =
                Inl (NullPointerDereference,
                     \<lparr>host_state = s1,
                      calls = calls w @
                        [Call_AsMap h, Call_AddItem m, Call_GetNumChildren h,
                         Call_GetChildHandle h i]\<rparr>)"
    if a: "host_GetChildHandle H s1 h i = None"
    using OnPicked_stops [OF node comp' map'] a unfolding s_def h_def s1_def i_def by simp
  show ?thesis
    using fetch last new wrap stop by blast
qed

text \<open>
  One child left by \<^verbatim>\<open>AddItem\<close> is not enough. On the map that refuses the item and holds
  the entry AB there is one child, the index is 0, and the child there is the entry that
  was there before. On the editor that reports no count there are two children, the
  index is 4294967295 and the callback stops on the null handle.
\<close>

theorem OnPicked_child_index_counterexample:
  "entries editor0 = [(''AB'', Some [10, 11])] \<and>
   entries (host_AddItem frozen_host (MapView ''Components'') editor0) = [(''AB'', Some [10, 11])] \<and>
   NumChildren_read frozen_host (Property ''Components'') (MapView ''Components'') editor0 - 1 = 0 \<and>
   entries (host_AddItem silent_host (MapView ''Components'') editor0) =
     [(''AB'', Some [10, 11]), ([], None)] \<and>
   OnPicked silent_host captures0 (Some node0) world0 =
     Inl (NullPointerDereference,
          \<lparr>host_state = editor0\<lparr>entries := [(''AB'', Some [10, 11]), ([], None)]\<rparr>,
           calls = [Call_AsMap (Property ''Components''), Call_AddItem (MapView ''Components''),
                    Call_GetNumChildren (Property ''Components''),
                    Call_GetChildHandle (Property ''Components'') 4294967295]\<rparr>)"
  by (simp add: OnPicked_def call_defs Let_def is_nullptr_def captures0_def node0_def world0_def
      editor0_def NumChildren_read_def max_u32)

text \<open>
  On the list-backed editor the count is 2, the index 1 and the child there the appended
  entry; on the empty map that refuses the item the count is 0, the index 4294967295,
  and the callback stops on the null child handle.
\<close>

theorem OnPicked_child_index_witness:
  "Call_GetChildHandle (Property ''Components'') 1
     \<in> set (calls_since world0 (final_world (OnPicked list_host captures0 (Some node0) world0))) \<and>
   (1 :: nat) < length (entries (list_AddItem (MapView ''Components'') editor0)) \<and>
   entries (list_AddItem (MapView ''Components'') editor0) ! 1 = ([], None) \<and>
   NumChildren_read frozen_host (Property ''Components'') (MapView ''Components'') editor_empty - 1 =
     4294967295 \<and>
   OnPicked frozen_host captures0 (Some node0) \<lparr>host_state = editor_empty, calls = []\<rparr> =
     Inl (NullPointerDereference,
          \<lparr>host_state = editor_empty,
           calls = [Call_AsMap (Property ''Components''), Call_AddItem (MapView ''Components''),
                    Call_GetNumChildren (Property ''Components''),
                    Call_GetChildHandle (Property ''Components'') 4294967295]\<rparr>)"
proof -
  note t = OnPicked_child_index [OF pick0_node pick0_component pick0_map,
      where entries_of = entries and e = "([], None)" and n = 2]
  note u = OnPicked_child_index [OF pick0_node frozen_empty_component frozen_empty_map,
      where entries_of = entries]
  have a: "Call_GetChildHandle (Property ''Components'') 1
     \<in> set (calls_since world0 (final_world (OnPicked list_host captures0 (Some node0) world0)))"
    using t [THEN conjunct1] by (simp add: captures0_def world0_def NumChildren_read0)
  have b: "unat (NumChildren_read list_host (ComponentsHandle captures0) (MapView ''Components'')
                  (host_state world0) - 1) = length (entries (host_state world0)) \<and>
           entries (host_AddItem list_host (MapView ''Components'') (host_state world0)) !
             unat (NumChildren_read list_host (ComponentsHandle captures0) (MapView ''Components'')
                  (host_state world0) - 1) = ([], None)"
    using t [THEN conjunct2, THEN conjunct2, THEN conjunct1, rule_format, OF pick0_appended] .
  have b': "(1 :: nat) < length (entries (list_AddItem (MapView ''Components'') editor0)) \<and>
            entries (list_AddItem (MapView ''Components'') editor0) ! 1 = ([], None)"
    using b by (simp add: pick0_index) (simp add: world0_def editor0_def)
  have z: "NumChildren_read frozen_host (ComponentsHandle captures0) (MapView ''Components'')
             (host_state \<lparr>host_state = editor_empty, calls = []\<rparr>) = 0"
    by (simp add: captures0_def NumChildren_read_frozen)
  have c: "NumChildren_read frozen_host (Property ''Components'') (MapView ''Components'') editor_empty - 1 =
     4294967295"
    using u [THEN conjunct2, THEN conjunct2, THEN conjunct2, THEN conjunct1, rule_format, OF z]
    by (simp add: captures0_def)
  have none: "host_GetChildHandle frozen_host
      (host_AddItem frozen_host (MapView ''Components'') (host_state \<lparr>host_state = editor_empty, calls = []\<rparr>))
      (ComponentsHandle captures0)
      (NumChildren_read frozen_host (ComponentsHandle captures0) (MapView ''Components'')
         (host_state \<lparr>host_state = editor_empty, calls = []\<rparr>) - 1) = None"
    by (simp add: captures0_def NumChildren_read_frozen) (simp add: editor_empty_def)
  have d: "OnPicked frozen_host captures0 (Some node0) \<lparr>host_state = editor_empty, calls = []\<rparr> =
     Inl (NullPointerDereference,
          \<lparr>host_state = editor_empty,
           calls = [Call_AsMap (Property ''Components''), Call_AddItem (MapView ''Components''),
                    Call_GetNumChildren (Property ''Components''),
                    Call_GetChildHandle (Property ''Components'') 4294967295]\<rparr>)"
    using u [THEN conjunct2, THEN conjunct2, THEN conjunct2, THEN conjunct2, rule_format, OF none]
    by (simp add: captures0_def NumChildren_read_frozen max_u32)
  show ?thesis using a b' c d by simp
qed

section \<open>The panel\<close>

text \<open>
  C3. When the editor reports no object being customized, \<^verbatim>\<open>CustomizeDetails\<close> returns
  after that one query: the editor state is the one it started in, and nothing else was
  called (no property handle fetched, no category edited, nothing rendered, no row added).
\<close>

theorem CustomizeDetails_no_objects:
  assumes "host_GetObjectsBeingCustomized H (host_state w) = []"
  shows "CustomizeDetails H w = Inr (w\<lparr>calls := calls w @ [Call_GetObjectsBeingCustomized]\<rparr>)"
  using assms by (rule CustomizeDetails_empty)

theorem CustomizeDetails_no_objects_witness:
  "CustomizeDetails list_host (world0\<lparr>host_state := editor0\<lparr>customized := []\<rparr>\<rparr>) =
     Inr \<lparr>host_state = editor0\<lparr>customized := []\<rparr>, calls = [Call_GetObjectsBeingCustomized]\<rparr>"
proof -
  have a: "host_GetObjectsBeingCustomized list_host
             (host_state (world0\<lparr>host_state := editor0\<lparr>customized := []\<rparr>\<rparr>)) = []"
    by simp
  show ?thesis
    using CustomizeDetails_no_objects [OF a] by (simp add: world0_def)
qed

text \<open>
  C5. With at least one object being customized, \<^verbatim>\<open>CustomizeDetails\<close> returns normally.
  The calls it made are exactly, in order: the query for the objects, one \<^verbatim>\<open>GetProperty\<close>
  for the member named Components, one \<^verbatim>\<open>EditCategory\<close> for the category Rust, the property
  utilities, one \<^verbatim>\<open>FDynamicRustComponent::Render\<close> of that handle into that category, and one
  \<^verbatim>\<open>AddCustomRow\<close> on that category whose content is the dropdown list. The editor state it
  leaves is the one the category, then the rendering, then the row produce from the
  state it started in. The component the dropdown's delegate captures is the cast of the
  first object, and a pick on the dropdown runs \<^verbatim>\<open>OnPicked\<close> with these captures.
\<close>

theorem CustomizeDetails_wires_panel:
  fixes H :: "('s, 'h, 'o, 'g, 'c, 'u) host" and w :: "('s, 'h, 'o, 'g, 'c, 'u) world"
  defines "s \<equiv> host_state w"
  defines "h \<equiv> host_GetProperty H s ''Components''"
  defines "c \<equiv> fst (host_EditCategory H ''Rust'' s)"
  defines "s3 \<equiv> snd (host_EditCategory H ''Rust'' s)"
  defines "u \<equiv> host_GetPropertyUtilities H s3"
  defines "cap \<equiv> \<lparr>Component = Cast_UEntityComponent H s (host_GetObjectsBeingCustomized H s ! 0),
                     ComponentsHandle = h\<rparr>"
  assumes "host_GetObjectsBeingCustomized H s \<noteq> []"
  shows "CustomizeDetails H w =
           Inr \<lparr>host_state =
                  host_AddCustomRow H c ''Picker'' (SRustDropdownList cap) (host_Render H h c u s3),
                calls = calls w @
                  [Call_GetObjectsBeingCustomized, Call_GetProperty ''Components'',
                   Call_EditCategory ''Rust'', Call_GetPropertyUtilities, Call_Render h c u,
                   Call_AddCustomRow c ''Picker'' (SRustDropdownList cap)]\<rparr> \<and>
         (\<forall>Node w2. pick H (SRustDropdownList cap) Node w2 = OnPicked H cap Node w2)"
  using CustomizeDetails_returns [of H w] assms by simp

text \<open>
  On the list-backed editor: one category, one rendering, one row with the dropdown.
\<close>

theorem CustomizeDetails_wires_panel_witness:
  "CustomizeDetails list_host world0 =
     Inr \<lparr>host_state =
            editor0\<lparr>categories := [''Rust''], rendered := 1,
                    rows := [(''Rust'', ''Picker'', SRustDropdownList captures0)]\<rparr>,
          calls =
            [Call_GetObjectsBeingCustomized, Call_GetProperty ''Components'',
             Call_EditCategory ''Rust'', Call_GetPropertyUtilities,
             Call_Render (Property ''Components'') ''Rust'' (),
             Call_AddCustomRow ''Rust'' ''Picker'' (SRustDropdownList captures0)]\<rparr> \<and>
   (\<forall>Node w2. pick list_host (SRustDropdownList captures0) Node w2 = OnPicked list_host captures0 Node w2)"
proof -
  have a: "host_GetObjectsBeingCustomized list_host (host_state world0) \<noteq> []"
    by (simp add: world0_def editor0_def)
  have b: "Cast_UEntityComponent list_host (host_state world0)
             (host_GetObjectsBeingCustomized list_host (host_state world0) ! 0) =
           Some (EntityComponent 7)"
    by (simp add: world0_def editor0_def Cast_UEntityComponent_def)
  show ?thesis
    using CustomizeDetails_wires_panel [OF a] b
    by (simp add: captures0_def world0_def) (simp add: editor0_def)
qed

text \<open>
  C9. When the first object being customized does not cast to an entity component, the
  panel is built all the same: the same six calls, and an editor state with the category
  Rust edited, the map rendered and the picker row added. The delegate captures a null
  component, and every pick on the dropdown, in any later world and with any node,
  returns that world unchanged.
\<close>

theorem CustomizeDetails_non_component:
  fixes H :: "('s, 'h, 'o, 'g, 'c, 'u) host" and w :: "('s, 'h, 'o, 'g, 'c, 'u) world"
  defines "s \<equiv> host_state w"
  defines "h \<equiv> host_GetProperty H s ''Components''"
  defines "c \<equiv> fst (host_EditCategory H ''Rust'' s)"
  defines "s3 \<equiv> snd (host_EditCategory H ''Rust'' s)"
  defines "u \<equiv> host_GetPropertyUtilities H s3"
  defines "cap \<equiv> \<lparr>Component = None, ComponentsHandle = h\<rparr>"
  assumes "host_GetObjectsBeingCustomized H s \<noteq> []"
    and "Cast_UEntityComponent H s (host_GetObjectsBeingCustomized H s ! 0) = None"
  shows "CustomizeDetails H w =
           Inr \<lparr>host_state =
                  host_AddCustomRow H c ''Picker'' (SRustDropdownList cap) (host_Render H h c u s3),
                calls = calls w @
                  [Call_GetObjectsBeingCustomized, Call_GetProperty ''Components'',
                   Call_EditCategory ''Rust'', Call_GetPropertyUtilities, Call_Render h c u,
                   Call_AddCustomRow c ''Picker'' (SRustDropdownList cap)]\<rparr> \<and>
         (\<forall>Node w2. pick H (SRustDropdownList cap) Node w2 = Inr w2)"
  using CustomizeDetails_returns [of H w] assms
  by (simp add: OnPicked_def is_nullptr_def split: option.splits)

text \<open>
  On the list-backed editor showing an object of another class.
\<close>

theorem CustomizeDetails_non_component_witness:
  "CustomizeDetails list_host (world0\<lparr>host_state := editor_other\<rparr>) =
     Inr \<lparr>host_state =
            editor_other\<lparr>categories := [''Rust''], rendered := 1,
              rows := [(''Rust'', ''Picker'',
                SRustDropdownList \<lparr>Component = None, ComponentsHandle = Property ''Components''\<rparr>)]\<rparr>,
          calls =
            [Call_GetObjectsBeingCustomized, Call_GetProperty ''Components'',
             Call_EditCategory ''Rust'', Call_GetPropertyUtilities,
             Call_Render (Property ''Components'') ''Rust'' (),
             Call_AddCustomRow ''Rust'' ''Picker''
               (SRustDropdownList \<lparr>Component = None, ComponentsHandle = Property ''Components''\<rparr>)]\<rparr> \<and>
   (\<forall>Node w2. pick list_host
       (SRustDropdownList \<lparr>Component = None, ComponentsHandle = Property ''Components''\<rparr>) Node w2 = Inr w2)"
proof -
  have a: "host_GetObjectsBeingCustomized list_host (host_state (world0\<lparr>host_state := editor_other\<rparr>)) \<noteq> []"
    by (simp add: editor_other_def)
  have b: "Cast_UEntityComponent list_host (host_state (world0\<lparr>host_state := editor_other\<rparr>))
             (host_GetObjectsBeingCustomized list_host (host_state (world0\<lparr>host_state := editor_other\<rparr>)) ! 0) =
           None"
    by (simp add: editor_other_def Cast_UEntityComponent_def)
  show ?thesis
    using CustomizeDetails_non_component [OF a b]
    by (simp add: world0_def) (simp add: editor_other_def editor0_def)
qed

text \<open>
  C8. \<^verbatim>\<open>CustomizeDetails\<close> returns normally on every editor and world, so the access
  \<^verbatim>\<open>Objects[0]\<close> never leaves the array: the access at index 0 fails exactly on the empty
  array, which is the case the guard returns on before reaching it.
\<close>

theorem Objects_index_in_bounds:
  "(\<exists>w'. CustomizeDetails H w = Inr w') \<and>
   (TArray_at Objects 0 = Inl ArrayIndexOutOfBounds \<longleftrightarrow> Objects = [])"
proof
  show "\<exists>w'. CustomizeDetails H w = Inr w'"
  proof (cases "host_GetObjectsBeingCustomized H (host_state w) = []")
    case True
    then show ?thesis by (simp add: CustomizeDetails_empty)
  next
    case False
    then show ?thesis using CustomizeDetails_returns [of H w] by simp
  qed
  show "TArray_at Objects 0 = Inl ArrayIndexOutOfBounds \<longleftrightarrow> Objects = []"
    by (simp add: TArray_at_def)
qed

text \<open>
  C7. Both guard paths end silently. With no object being customized,
  \<^verbatim>\<open>CustomizeDetails\<close> returns normally, the editor state untouched and the query for the
  objects its only call. With a null node or a null component, \<^verbatim>\<open>OnPicked\<close> returns
  normally, the editor state untouched and no call made. Neither stops abnormally, and
  no call that could log, report or open a dialog is made.
\<close>

theorem guards_are_silent:
  "(host_GetObjectsBeingCustomized H (host_state w) = [] \<longrightarrow>
      (\<exists>w'. CustomizeDetails H w = Inr w' \<and> host_state w' = host_state w \<and>
            calls_since w w' = [Call_GetObjectsBeingCustomized])) \<and>
   (Node = None \<or> is_nullptr H (host_state v) (Component cap) \<longrightarrow>
      (\<exists>v'. OnPicked H cap Node v = Inr v' \<and> host_state v' = host_state v \<and>
            calls_since v v' = []))"
  by (auto simp: CustomizeDetails_empty calls_since_def OnPicked_def split: option.splits)

theorem guards_are_silent_witness:
  "(\<exists>w'. CustomizeDetails list_host (world0\<lparr>host_state := editor0\<lparr>customized := []\<rparr>\<rparr>) = Inr w' \<and>
         host_state w' = editor0\<lparr>customized := []\<rparr> \<and>
         calls_since (world0\<lparr>host_state := editor0\<lparr>customized := []\<rparr>\<rparr>) w' =
           [Call_GetObjectsBeingCustomized]) \<and>
   (\<exists>w'. OnPicked list_host captures0 None world0 = Inr w' \<and> host_state w' = editor0 \<and>
         calls_since world0 w' = [])"
proof -
  have a: "host_GetObjectsBeingCustomized list_host
             (host_state (world0\<lparr>host_state := editor0\<lparr>customized := []\<rparr>\<rparr>)) = []"
    by simp
  have b: "(None :: nat list FUuidViewNode option) = None \<or>
           is_nullptr list_host (host_state world0) (Component captures0)"
    by simp
  show ?thesis
    using guards_are_silent [where H = list_host and Node = None and v = world0 and cap = captures0
        and w = "world0\<lparr>host_state := editor0\<lparr>customized := []\<rparr>\<rparr>"] a b
    by (simp add: world0_def)
qed

end
